theory Spec2Isabelle
  imports Complex_Main "HOL-Library.Log_Nat"
begin

section \<open>Python values\<close>

text \<open>
  A Python \<open>str\<close> is a sequence of Unicode code points, so a string is a list of
  natural numbers here. The source compares against two Korean markers and trims with
  \<open>str.strip()\<close>, which removes Unicode white space: a byte string would get both wrong.
\<close>

type_synonym pystr = "nat list"

definition asc :: "string \<Rightarrow> pystr" where
  "asc s = map of_char s"

datatype py_error =
  IndexError | KeyError | RequestException | ModelError | UnboundLocalError | UnicodeEncodeError

text \<open>The characters \<open>str.strip()\<close> removes (those for which \<open>str.isspace\<close> holds).\<close>

definition is_space :: "nat \<Rightarrow> bool" where
  "is_space c \<longleftrightarrow>
     (9 \<le> c \<and> c \<le> 13) \<or> (28 \<le> c \<and> c \<le> 32) \<or> c = 133 \<or> c = 160 \<or> c = 5760 \<or>
     (8192 \<le> c \<and> c \<le> 8202) \<or> c = 8232 \<or> c = 8233 \<or> c = 8239 \<or> c = 8287 \<or> c = 12288"

definition strip :: "pystr \<Rightarrow> pystr" where
  "strip s = rev (dropWhile is_space (rev (dropWhile is_space s)))"

definition startswith :: "pystr \<Rightarrow> pystr \<Rightarrow> bool" where
  "startswith s p \<longleftrightarrow> take (length p) s = p"

text \<open>\<open>text.split('\n')\<close>: always at least one piece.\<close>

fun split_nl :: "pystr \<Rightarrow> pystr list" where
  "split_nl [] = [[]]"
| "split_nl (c # cs) =
     (if c = 10 then [] # split_nl cs
      else (case split_nl cs of [] \<Rightarrow> [[c]] | l # ls \<Rightarrow> (c # l) # ls))"

text \<open>\<open>"\n".join(ls)\<close>.\<close>

fun join_nl :: "pystr list \<Rightarrow> pystr" where
  "join_nl [] = []"
| "join_nl [l] = l"
| "join_nl (l # ls) = l @ 10 # join_nl ls"

text \<open>\<open>line.split(':', 1)[1]\<close>: the text after the first colon; IndexError without one.\<close>

definition after_colon :: "pystr \<Rightarrow> py_error + pystr" where
  "after_colon line =
     (case dropWhile (\<lambda>c. c \<noteq> 58) line of [] \<Rightarrow> Inl IndexError | _ # rest \<Rightarrow> Inr rest)"

text \<open>Truthiness of a value that is \<open>None\<close> or a \<open>str\<close>.\<close>

definition truthy :: "pystr option \<Rightarrow> bool" where
  "truthy v = (case v of None \<Rightarrow> False | Some s \<Rightarrow> s \<noteq> [])"

section \<open>The response parser of \<open>generate_blog_content\<close>\<close>

text \<open>The Korean markers: U+C81C U+BAA9 and U+B0B4 U+C6A9, each followed by a colon.\<close>

definition title_ko :: pystr where
  "title_ko = [51228, 47785, 58]"

definition content_ko :: pystr where
  "content_ko = [45236, 50857, 58]"

definition is_title_line :: "pystr \<Rightarrow> bool" where
  "is_title_line line \<longleftrightarrow>
     startswith (strip line) (asc ''Title:'') \<or> startswith (strip line) title_ko"

definition is_content_line :: "pystr \<Rightarrow> bool" where
  "is_content_line line \<longleftrightarrow>
     startswith (strip line) (asc ''Content:'') \<or> startswith (strip line) content_ko"

text \<open>
  The \<open>for i, line in enumerate(lines)\<close> loop, with the two variables it assigns. At
  index \<open>i\<close> the rest of the list is \<open>lines[i+1:]\<close>.
\<close>

fun parse_loop :: "pystr \<Rightarrow> pystr \<Rightarrow> pystr list \<Rightarrow> py_error + (pystr \<times> pystr)" where
  "parse_loop title content [] = Inr (title, content)"
| "parse_loop title content (line # rest) =
     (if is_title_line line then
        (case after_colon line of
           Inl e \<Rightarrow> Inl e
         | Inr t \<Rightarrow> parse_loop (strip t) content rest)
      else if is_content_line line then Inr (title, join_nl rest)
      else parse_loop title content rest)"

definition parse_response :: "pystr \<Rightarrow> py_error + (pystr \<times> pystr)" where
  "parse_response text = parse_loop (asc ''Market Update'') text (split_nl text)"

text \<open>
  What the scan computes for the title once it has passed the lines \<open>pre\<close>: the text
  after the first colon of the last Title-marked line, trimmed, or the title it started
  with when there is none.
\<close>

definition scanned_title :: "pystr \<Rightarrow> pystr list \<Rightarrow> pystr" where
  "scanned_title t pre =
     (case filter is_title_line pre of
        [] \<Rightarrow> t
      | l # ls \<Rightarrow> strip (drop 1 (dropWhile (\<lambda>c. c \<noteq> 58) (last (l # ls)))))"

section \<open>Floating-point values\<close>

text \<open>
  The prices are numpy \<open>float64\<close> scalars, IEEE 754 binary64 values. A finite value
  other than the negative zero is \<open>Fin q\<close> with \<open>q\<close> the rational it stands for;
  \<open>Fin 0\<close> is the positive zero. Each operation computes the exact result and rounds it
  to the nearest binary64 value, ties to the even significand, with overflow to an
  infinity and gradual underflow. numpy's scalar division by zero gives \<open>nan\<close> or an
  infinity with a warning; it does not raise.
\<close>

datatype pyfloat = Fin rat | NegZero | PInf | NInf | NaN

fun is_neg :: "pyfloat \<Rightarrow> bool" where
  "is_neg (Fin q) = (q < 0)"
| "is_neg NegZero = True"
| "is_neg PInf = False"
| "is_neg NInf = True"
| "is_neg NaN = False"

fun is_inf :: "pyfloat \<Rightarrow> bool" where
  "is_inf PInf = True"
| "is_inf NInf = True"
| "is_inf _ = False"

fun is_zero :: "pyfloat \<Rightarrow> bool" where
  "is_zero (Fin q) = (q = 0)"
| "is_zero NegZero = True"
| "is_zero _ = False"

text \<open>The exact value of a finite float and its magnitude.\<close>

fun exact :: "pyfloat \<Rightarrow> rat" where
  "exact (Fin q) = q"
| "exact _ = 0"

definition mag :: "pyfloat \<Rightarrow> rat" where
  "mag x = \<bar>exact x\<bar>"

definition signed_inf :: "bool \<Rightarrow> pyfloat" where
  "signed_inf s = (if s then NInf else PInf)"

definition signed_zero :: "bool \<Rightarrow> pyfloat" where
  "signed_zero s = (if s then NegZero else Fin 0)"

definition pow2 :: "int \<Rightarrow> rat" where
  "pow2 e = (if 0 \<le> e then 2 ^ nat e else 1 / 2 ^ nat (- e))"

text \<open>The integer part of the binary logarithm of a positive rational.\<close>

definition floor_log2 :: "rat \<Rightarrow> int" where
  "floor_log2 a =
     (let (n, d) = quotient_of a; k = bitlen n - bitlen d
      in if pow2 k \<le> a then k else k - 1)"

text \<open>Rounding to the nearest integer, ties to the even one.\<close>

definition rint :: "rat \<Rightarrow> int" where
  "rint q =
     (let f = \<lfloor>q\<rfloor>; d = q - of_int f
      in if d < 1 / 2 then f else if 1 / 2 < d then f + 1 else if even f then f else f + 1)"

text \<open>
  A magnitude rounded to the binary64 grid: 53 significant bits, and the exponent of the
  last place never below \<open>-1074\<close>.
\<close>

definition rnd_mag :: "rat \<Rightarrow> rat" where
  "rnd_mag a =
     (if a = 0 then 0
      else let e = max (floor_log2 a - 52) (- 1074)
           in of_int (rint (a / pow2 e)) * pow2 e)"

text \<open>The float with sign \<open>s\<close> nearest to the exact magnitude \<open>a\<close>.\<close>

definition pack :: "bool \<Rightarrow> rat \<Rightarrow> pyfloat" where
  "pack s a =
     (let r = rnd_mag a
      in if 2 ^ 1024 \<le> r then signed_inf s
         else if r = 0 then signed_zero s
         else Fin (if s then - r else r))"

definition fsub :: "pyfloat \<Rightarrow> pyfloat \<Rightarrow> pyfloat" where
  "fsub x y =
     (if x = NaN \<or> y = NaN then NaN
      else if is_inf x then (if is_inf y \<and> is_neg x = is_neg y then NaN else x)
      else if is_inf y then signed_inf (\<not> is_neg y)
      else let v = exact x - exact y
           in if v = 0 then signed_zero (is_neg x \<and> \<not> is_neg y) else pack (v < 0) \<bar>v\<bar>)"

definition fmul :: "pyfloat \<Rightarrow> pyfloat \<Rightarrow> pyfloat" where
  "fmul x y =
     (if x = NaN \<or> y = NaN then NaN
      else let s = (is_neg x \<noteq> is_neg y)
           in if is_inf x \<or> is_inf y
              then (if is_zero x \<or> is_zero y then NaN else signed_inf s)
              else pack s (mag x * mag y))"

definition fdiv :: "pyfloat \<Rightarrow> pyfloat \<Rightarrow> pyfloat" where
  "fdiv x y =
     (if x = NaN \<or> y = NaN then NaN
      else let s = (is_neg x \<noteq> is_neg y)
           in if is_inf x then (if is_inf y then NaN else signed_inf s)
              else if is_inf y then signed_zero s
              else if is_zero y then (if is_zero x then NaN else signed_inf s)
              else pack s (mag x / mag y))"

text \<open>\<open>rint\<close> on a float; the result keeps the sign of its argument.\<close>

definition frint :: "pyfloat \<Rightarrow> pyfloat" where
  "frint x =
     (case x of
        Fin q \<Rightarrow> (let n = rint q in if n = 0 then signed_zero (q < 0) else Fin (of_int n))
      | _ \<Rightarrow> x)"

text \<open>
  \<open>round(x, 2)\<close> on a numpy scalar: multiply by \<open>100.0\<close>, round to an integer, divide
  by \<open>100.0\<close>, each step in binary64.
\<close>

definition round2 :: "pyfloat \<Rightarrow> pyfloat" where
  "round2 x = fdiv (frint (fmul x (Fin 100))) (Fin 100)"

section \<open>Effects and the outside world\<close>

text \<open>
  The calls that leave the process, in the order the run makes them. \<open>HttpPost\<close> carries
  the endpoint, the credentials whose base64 form goes into the Authorization header, and
  the title and content of the post. Console output is not recorded.
\<close>

datatype effect =
    FetchHistory
  | HttpGet pystr
  | ModelCall pystr
  | B64Encode pystr
  | HttpPost pystr pystr pystr pystr

text \<open>The module-level configuration: each \<open>os.getenv\<close> is \<open>None\<close> or a string.\<close>

record config =
  WP_URL :: "pystr option"
  WP_USERNAME :: "pystr option"
  WP_APP_PASSWORD :: "pystr option"
  GEMINI_API_KEY :: "pystr option"

text \<open>A value formatted into an f-string: \<open>None\<close> prints as its name.\<close>

definition str_of :: "pystr option \<Rightarrow> pystr" where
  "str_of v = (case v of None \<Rightarrow> asc ''None'' | Some s \<Rightarrow> s)"

section \<open>\<open>get_nasdaq_data\<close>\<close>

text \<open>One row of the history frame, its index already formatted as \<open>%Y-%m-%d\<close>.\<close>

record bar =
  bar_date :: pystr
  Open :: pyfloat
  High :: pyfloat
  Low :: pyfloat
  Close :: pyfloat
  Volume :: pyfloat

text \<open>The dictionary the function returns.\<close>

record snapshot =
  d_date :: pystr
  d_close :: pyfloat
  d_open :: pyfloat
  d_high :: pyfloat
  d_low :: pyfloat
  d_volume :: pyfloat
  d_change :: pyfloat
  d_change_percent :: pyfloat

text \<open>
  \<open>hist\<close> is what \<open>history(period="5d")\<close> returned, oldest row first; \<open>iloc[-1]\<close> is
  its last row and \<open>iloc[-2]\<close> the one before.
\<close>

definition get_nasdaq_data :: "bar list \<Rightarrow> snapshot option \<times> effect list" where
  "get_nasdaq_data hist =
     (if hist = [] then (None, [FetchHistory])
      else
        let last_day = last hist;
            prev_day = (if 1 < length hist then hist ! (length hist - 2) else last_day);
            change = fsub (Close last_day) (Close prev_day);
            change_percent = fmul (fdiv change (Close prev_day)) (Fin 100)
        in (Some \<lparr> d_date = bar_date last_day,
                    d_close = round2 (Close last_day),
                    d_open = round2 (Open last_day),
                    d_high = round2 (High last_day),
                    d_low = round2 (Low last_day),
                    d_volume = Volume last_day,
                    d_change = round2 change,
                    d_change_percent = round2 change_percent \<rparr>,
            [FetchHistory]))"

section \<open>\<open>get_google_finance_news\<close>\<close>

text \<open>
  What the scraper reads off one container: \<open>title_el\<close> is the text of its first
  \<open>div.Yfwt5\<close>, or \<open>None\<close> without one; \<open>link_el\<close> is \<open>None\<close> without an anchor,
  \<open>Some None\<close> for an anchor that has no \<open>href\<close> attribute, and the attribute's value
  otherwise.
\<close>

record article =
  title_el :: "pystr option"
  link_el :: "pystr option option"

text \<open>The parsed page, as the two \<open>find_all\<close> queries see it.\<close>

record soup =
  yY3Lee :: "article list"
  F2KAFc :: "article list"

text \<open>Lines 85 to 88: the rewriting of a link.\<close>

definition normalize_link :: "pystr \<Rightarrow> pystr" where
  "normalize_link link =
     (if startswith link (asc ''./'') then asc ''https://www.google.com/finance'' @ drop 1 link
      else if startswith link (asc ''/'') then asc ''https://www.google.com'' @ link
      else link)"

text \<open>\<open>link_el['href'] if link_el else "#"\<close>: a missing attribute raises KeyError.\<close>

definition href_of :: "article \<Rightarrow> py_error + pystr" where
  "href_of a =
     (case link_el a of
        None \<Rightarrow> Inr (asc ''#'')
      | Some None \<Rightarrow> Inl KeyError
      | Some (Some h) \<Rightarrow> Inr h)"

text \<open>The loop over the containers, with the list it appends to.\<close>

fun collect_items :: "pystr list \<Rightarrow> article list \<Rightarrow> py_error + pystr list" where
  "collect_items news_items [] = Inr news_items"
| "collect_items news_items (a # rest) =
     (case title_el a of
        None \<Rightarrow> collect_items news_items rest
      | Some title \<Rightarrow>
          (case href_of a of
             Inl e \<Rightarrow> Inl e
           | Inr link \<Rightarrow>
               collect_items
                 (news_items @ [asc ''- '' @ title @ asc '' ('' @ normalize_link link @ asc '')''])
                 rest))"

definition no_headlines :: pystr where
  "no_headlines = asc ''Could not scrape specific headlines. Please generate a general market overview based on recent global financial events.''"

definition finance_url :: pystr where
  "finance_url = asc ''https://www.google.com/finance''"

text \<open>
  \<open>reply\<close> is the outcome of the request and of parsing its body: an exception, or the
  page. Every exception inside the \<open>try\<close> ends in the same fixed string.
\<close>

definition get_google_finance_news :: "py_error + soup \<Rightarrow> pystr \<times> effect list" where
  "get_google_finance_news reply =
     (case reply of
        Inl e \<Rightarrow> (asc ''Error fetching news.'', [HttpGet finance_url])
      | Inr page \<Rightarrow>
          let articles = yY3Lee page;
              articles = (if articles = [] then F2KAFc page else articles)
          in (case collect_items [] (take 5 articles) of
                Inl e \<Rightarrow> (asc ''Error fetching news.'', [HttpGet finance_url])
              | Inr news_items \<Rightarrow>
                  if news_items = [] then (no_headlines, [HttpGet finance_url])
                  else (join_nl news_items, [HttpGet finance_url])))"

section \<open>\<open>generate_blog_content\<close>\<close>

definition build_prompt :: "pystr \<Rightarrow> pystr \<Rightarrow> pystr \<Rightarrow> pystr" where
  "build_prompt today topic data_context =
     asc ''\<newline>    You are a professional financial blogger. Write a blog post for today ('' @ today @
     asc '').\<newline>    \<newline>    Topic: '' @ topic @
     asc ''\<newline>    \<newline>    Context Data:\<newline>    '' @ data_context @
     asc ''\<newline>    \<newline>    Requirements:\<newline>    1. Title: Catchy and relevant.\<newline>    2. Content: Informative, easy to read, formatted with HTML (use <h2>, <p>, <ul>, <li>).\<newline>    3. Tone: Professional yet engaging.\<newline>    4. Language: Korean (Hangul).\<newline>    5. Length: About 500-800 words.\<newline>    \<newline>    Output format:\<newline>    Title: [Your Title Here]\<newline>    Content: [Your HTML Content Here]\<newline>    ''"

text \<open>
  \<open>reply\<close> is the outcome of \<open>model.generate_content(prompt)\<close> and of reading its
  \<open>text\<close>: an exception, or the text. The pair returned holds \<open>None\<close> or a string in
  each place.
\<close>

definition generate_blog_content ::
  "config \<Rightarrow> pystr \<Rightarrow> py_error + pystr \<Rightarrow> pystr \<Rightarrow> pystr \<Rightarrow>
   (pystr option \<times> pystr option) \<times> effect list" where
  "generate_blog_content cfg today reply topic data_context =
     (if \<not> truthy (GEMINI_API_KEY cfg)
      then ((Some (asc ''Error: Gemini API Key not found.''), Some (asc ''Error'')), [])
      else
        let prompt = build_prompt today topic data_context
        in (case reply of
              Inl e \<Rightarrow> ((None, None), [ModelCall prompt])
            | Inr text \<Rightarrow>
                (case parse_response text of
                   Inl e \<Rightarrow> ((None, None), [ModelCall prompt])
                 | Inr (title, content) \<Rightarrow> ((Some title, Some content), [ModelCall prompt]))))"

section \<open>\<open>post_to_wordpress\<close>\<close>

text \<open>
  What \<open>requests.post\<close> and the lines after it do: the call itself raises, leaving
  \<open>response\<close> unassigned; or a response arrives whose status \<open>raise_for_status\<close>
  rejects; or the post is accepted and its body is JSON, or is not.
\<close>

datatype post_outcome = PostRaises | PostRejected | PostAccepted | PostAcceptedNoJson

text \<open>
  \<open>credentials.encode()\<close> is strict UTF-8: a string with a surrogate code point
  (U+D800 to U+DFFF, which \<open>os.getenv\<close> yields for undecodable bytes) raises
  UnicodeEncodeError, outside the \<open>try\<close>.
\<close>

definition encodable :: "pystr \<Rightarrow> bool" where
  "encodable s = list_all (\<lambda>c. \<not> (55296 \<le> c \<and> c \<le> 57343)) s"

text \<open>
  The handler reads \<open>response\<close>: when the call raised before assigning it, that read is
  an UnboundLocalError, which leaves the function.
\<close>

definition post_to_wordpress ::
  "config \<Rightarrow> post_outcome \<Rightarrow> pystr \<Rightarrow> pystr \<Rightarrow> (py_error + bool) \<times> effect list" where
  "post_to_wordpress cfg outcome title content =
     (if \<not> truthy (WP_URL cfg) \<or> \<not> truthy (WP_USERNAME cfg) \<or> \<not> truthy (WP_APP_PASSWORD cfg)
      then (Inr False, [])
      else
        let credentials = str_of (WP_USERNAME cfg) @ asc '':'' @ str_of (WP_APP_PASSWORD cfg)
        in if \<not> encodable credentials then (Inl UnicodeEncodeError, [])
           else
             let api_url = str_of (WP_URL cfg) @ asc ''/wp-json/wp/v2/posts'';
                 sent = [B64Encode credentials, HttpPost api_url credentials title content]
             in (case outcome of
                   PostRaises \<Rightarrow> (Inl UnboundLocalError, sent)
                 | PostRejected \<Rightarrow> (Inr False, sent)
                 | PostAccepted \<Rightarrow> (Inr True, sent)
                 | PostAcceptedNoJson \<Rightarrow> (Inr False, sent)))"

section \<open>\<open>main\<close>\<close>

text \<open>\<open>datetime.weekday()\<close> counts from Monday = 0 to Sunday = 6; the ISO number is one more.\<close>

datatype day = Monday | Tuesday | Wednesday | Thursday | Friday | Saturday | Sunday

fun weekday :: "day \<Rightarrow> nat" where
  "weekday Monday = 0"
| "weekday Tuesday = 1"
| "weekday Wednesday = 2"
| "weekday Thursday = 3"
| "weekday Friday = 4"
| "weekday Saturday = 5"
| "weekday Sunday = 6"

definition isoweekday :: "day \<Rightarrow> nat" where
  "isoweekday d = weekday d + 1"

datatype mode = NEWS | MARKET

text \<open>Everything one run reads from outside the process.\<close>

record world =
  now_day :: day
  today :: pystr
  news_reply :: "py_error + soup"
  hist :: "bar list"
  model_reply :: "py_error + pystr"
  post_reply :: post_outcome

text \<open>
  What a run leaves behind: the two locals \<open>mode\<close> and \<open>topic\<close> (\<open>topic\<close> is \<open>None\<close>
  when the run returned before assigning it), the exception that left \<open>main\<close>, if any,
  and the effects in order.
\<close>

record run =
  mode :: mode
  topic :: "pystr option"
  raised :: "py_error option"
  effects :: "effect list"

text \<open>Lines 224 to 235, which both modes reach with \<open>topic\<close> and \<open>data\<close> set.\<close>

definition main_generate ::
  "config \<Rightarrow> world \<Rightarrow> mode \<Rightarrow> pystr \<Rightarrow> pystr \<Rightarrow> effect list \<Rightarrow> run" where
  "main_generate cfg w m tp data ev =
     (if data = [] then \<lparr> mode = m, topic = Some tp, raised = None, effects = ev \<rparr>
      else
        let ((title, content), ev2) =
              generate_blog_content cfg (today w) (model_reply w) tp data
        in if truthy title \<and> truthy content then
             let (r, ev3) = post_to_wordpress cfg (post_reply w) (str_of title) (str_of content)
             in \<lparr> mode = m, topic = Some tp,
                  raised = (case r of Inl e \<Rightarrow> Some e | Inr _ \<Rightarrow> None),
                  effects = ev @ ev2 @ ev3 \<rparr>
           else \<lparr> mode = m, topic = Some tp, raised = None, effects = ev @ ev2 \<rparr>)"

text \<open>
  The f-string of lines 211 to 218; \<open>fstr\<close> is Python's formatting of a float, which is
  a parameter here.
\<close>

definition market_context :: "(pyfloat \<Rightarrow> pystr) \<Rightarrow> snapshot \<Rightarrow> pystr" where
  "market_context fstr d =
     asc ''\<newline>            Date: '' @ d_date d @
     asc ''\<newline>            Close: '' @ fstr (d_close d) @
     asc ''\<newline>            Open: '' @ fstr (d_open d) @
     asc ''\<newline>            High: '' @ fstr (d_high d) @
     asc ''\<newline>            Low: '' @ fstr (d_low d) @
     asc ''\<newline>            Change: '' @ fstr (d_change d) @ asc '' ('' @
     fstr (d_change_percent d) @ asc ''%)\<newline>            ''"

definition main :: "(pyfloat \<Rightarrow> pystr) \<Rightarrow> config \<Rightarrow> world \<Rightarrow> run" where
  "main fstr cfg w =
     (if weekday (now_day w) \<in> set [6, 0] then
        let (data, ev) = get_google_finance_news (news_reply w)
        in main_generate cfg w NEWS (asc ''Global Financial Market News & Updates'') data ev
      else
        let (data, ev) = get_nasdaq_data (hist w)
        in (case data of
              Some d \<Rightarrow>
                main_generate cfg w MARKET
                  (asc ''Nasdaq Market Review ('' @ d_date d @ asc '')'')
                  (market_context fstr d) ev
            | None \<Rightarrow> \<lparr> mode = MARKET, topic = None, raised = None, effects = ev \<rparr>))"

section \<open>Sample inputs\<close>

text \<open>Concrete configurations, worlds and rows, for evaluating the functions above.\<close>

abbreviation no_config :: config where
  "no_config \<equiv>
     \<lparr> WP_URL = None, WP_USERNAME = None, WP_APP_PASSWORD = None, GEMINI_API_KEY = None \<rparr>"

abbreviation full_config :: config where
  "full_config \<equiv>
     \<lparr> WP_URL = Some (asc ''https://blog.example''), WP_USERNAME = Some (asc ''u''),
       WP_APP_PASSWORD = Some (asc ''p''), GEMINI_API_KEY = Some (asc ''k'') \<rparr>"

abbreviation a_world :: "day \<Rightarrow> bar list \<Rightarrow> py_error + pystr \<Rightarrow> world" where
  "a_world d h reply \<equiv>
     \<lparr> now_day = d, today = asc ''2024-01-02'', news_reply = Inl RequestException,
       hist = h, model_reply = reply, post_reply = PostAccepted \<rparr>"

abbreviation a_bar :: "pyfloat \<Rightarrow> bar" where
  "a_bar c \<equiv>
     \<lparr> bar_date = asc ''2024-01-01'', Open = c, High = c, Low = c, Close = c, Volume = Fin 9 \<rparr>"

section \<open>Facts about the parts of \<open>main\<close>\<close>

lemma weekday_news: "weekday d \<in> set [6, 0] \<longleftrightarrow> d = Sunday \<or> d = Monday"
  by (cases d) simp_all

lemma iso_news: "isoweekday d \<in> {7, 1} \<longleftrightarrow> d = Sunday \<or> d = Monday"
  by (cases d) (simp_all add: isoweekday_def)

lemma mode_main_generate: "mode (main_generate cfg w m tp data ev) = m"
  by (simp add: main_generate_def Let_def split: prod.splits)

lemma topic_main_generate: "topic (main_generate cfg w m tp data ev) = Some tp"
  by (simp add: main_generate_def Let_def split: prod.splits)

lemma effects_main_generate: "take (length ev) (effects (main_generate cfg w m tp data ev)) = ev"
  by (simp add: main_generate_def Let_def split: prod.splits)

lemma snd_news: "snd (get_google_finance_news r) = [HttpGet finance_url]"
  by (simp add: get_google_finance_news_def Let_def split: sum.splits)

lemma snd_nasdaq: "snd (get_nasdaq_data h) = [FetchHistory]"
  by (simp add: get_nasdaq_data_def Let_def)

lemma startswith_append: "startswith (p @ s) p"
  by (simp add: startswith_def)

section \<open>The mode of a run\<close>

text \<open>
  C1. The mode of a run depends on the weekday of the current date alone. On Sunday and
  Monday (ISO weekdays 7 and 1) the run is in NEWS mode: its first effect is the request
  for the news page and its topic is the fixed global-market-news phrase. On Tuesday to
  Saturday it is in MARKET mode: its first effect is the request for the price history,
  and its topic is built from the date of the snapshot, when there is a snapshot.
\<close>

theorem mode_by_weekday:
  "mode (main fstr cfg w) = (if isoweekday (now_day w) \<in> {7, 1} then NEWS else MARKET) \<and>
   (now_day w \<in> {Sunday, Monday} \<longrightarrow>
      mode (main fstr cfg w) = NEWS \<and>
      take 1 (effects (main fstr cfg w)) = [HttpGet finance_url] \<and>
      topic (main fstr cfg w) = Some (asc ''Global Financial Market News & Updates'')) \<and>
   (now_day w \<in> {Tuesday, Wednesday, Thursday, Friday, Saturday} \<longrightarrow>
      mode (main fstr cfg w) = MARKET \<and>
      take 1 (effects (main fstr cfg w)) = [FetchHistory] \<and>
      topic (main fstr cfg w) =
        map_option (\<lambda>d. asc ''Nasdaq Market Review ('' @ d_date d @ asc '')'')
          (fst (get_nasdaq_data (hist w))))"
proof -
  obtain nd ne where n: "get_google_finance_news (news_reply w) = (nd, ne)"
    by (cases "get_google_finance_news (news_reply w)")
  have ne: "ne = [HttpGet finance_url]" using snd_news [of "news_reply w"] n by simp
  obtain md me where m: "get_nasdaq_data (hist w) = (md, me)"
    by (cases "get_nasdaq_data (hist w)")
  have me: "me = [FetchHistory]" using snd_nasdaq [of "hist w"] m by simp
  have news: "weekday (now_day w) \<in> set [6, 0] \<Longrightarrow>
      main fstr cfg w = main_generate cfg w NEWS (asc ''Global Financial Market News & Updates'') nd ne"
    by (simp add: main_def n)
  have market: "\<not> weekday (now_day w) \<in> set [6, 0] \<Longrightarrow>
      main fstr cfg w = (case md of
              Some d \<Rightarrow> main_generate cfg w MARKET
                  (asc ''Nasdaq Market Review ('' @ d_date d @ asc '')'') (market_context fstr d) me
            | None \<Rightarrow> \<lparr> mode = MARKET, topic = None, raised = None, effects = me \<rparr>)"
    by (simp add: main_def m)
  show ?thesis
  proof (cases "weekday (now_day w) \<in> set [6, 0]")
    case True
    then have d: "now_day w = Sunday \<or> now_day w = Monday" using weekday_news by blast
    have e: "take 1 (effects (main fstr cfg w)) = [HttpGet finance_url]"
      using effects_main_generate [of ne cfg w NEWS _ nd] news [OF True] ne by simp
    have i: "isoweekday (now_day w) \<in> {7, 1}" using d iso_news by blast
    have md: "mode (main fstr cfg w) = NEWS"
      using news [OF True] by (simp add: mode_main_generate)
    have t: "topic (main fstr cfg w) = Some (asc ''Global Financial Market News & Updates'')"
      using news [OF True] by (simp add: topic_main_generate)
    have x: "now_day w \<notin> {Tuesday, Wednesday, Thursday, Friday, Saturday}" using d by auto
    show ?thesis
      unfolding if_P [OF i] using md t e x by blast
  next
    case False
    then have d: "\<not> (now_day w = Sunday \<or> now_day w = Monday)" using weekday_news by blast
    have e: "take 1 (effects (main fstr cfg w)) = [FetchHistory]"
    proof (cases md)
      case None
      then show ?thesis using market [OF False] me by simp
    next
      case (Some s)
      then show ?thesis
        using effects_main_generate [of me cfg w MARKET _ "market_context fstr s"] market [OF False] me
        by simp
    qed
    have md: "mode (main fstr cfg w) = MARKET"
      using market [OF False] by (cases md) (simp_all add: mode_main_generate)
    have t: "topic (main fstr cfg w) =
        map_option (\<lambda>d. asc ''Nasdaq Market Review ('' @ d_date d @ asc '')'')
          (fst (get_nasdaq_data (hist w)))"
      using market [OF False] m by (cases md) (simp_all add: topic_main_generate)
    have i: "\<not> isoweekday (now_day w) \<in> {7, 1}" using d iso_news by blast
    have x: "now_day w \<notin> {Sunday, Monday}" using d by auto
    show ?thesis
      unfolding if_not_P [OF i] using md t e x by blast
  qed
qed

theorem mode_by_weekday_witness:
  "now_day (a_world Monday [] (Inl ModelError)) \<in> {Sunday, Monday} \<and>
   mode (main (\<lambda>x. []) no_config (a_world Monday [] (Inl ModelError))) = NEWS \<and>
   topic (main (\<lambda>x. []) no_config (a_world Monday [] (Inl ModelError))) =
     Some (asc ''Global Financial Market News & Updates'') \<and>
   now_day (a_world Tuesday [a_bar (Fin 2)] (Inl ModelError))
     \<in> {Tuesday, Wednesday, Thursday, Friday, Saturday} \<and>
   mode (main (\<lambda>x. []) no_config (a_world Tuesday [a_bar (Fin 2)] (Inl ModelError))) = MARKET \<and>
   topic (main (\<lambda>x. []) no_config (a_world Tuesday [a_bar (Fin 2)] (Inl ModelError))) =
     Some (asc ''Nasdaq Market Review ('' @ asc ''2024-01-01'' @ asc '')'')"
  using mode_by_weekday [of "\<lambda>x. []" no_config "a_world Monday [] (Inl ModelError)"]
    mode_by_weekday [of "\<lambda>x. []" no_config "a_world Tuesday [a_bar (Fin 2)] (Inl ModelError)"]
  by (simp add: get_nasdaq_data_def Let_def isoweekday_def)

section \<open>An empty price series\<close>

text \<open>
  C5. In MARKET mode with an empty price series, \<open>get_nasdaq_data\<close> returns \<open>None\<close>
  and raises nothing, and the run returns at once: its only effect is the request for the
  history, so the model is never called and nothing is posted.
\<close>

theorem empty_series_halts:
  "weekday (now_day w) \<notin> set [6, 0] \<Longrightarrow> hist w = [] \<Longrightarrow>
   fst (get_nasdaq_data (hist w)) = None \<and>
   main fstr cfg w = \<lparr> mode = MARKET, topic = None, raised = None, effects = [FetchHistory] \<rparr>"
  by (simp add: main_def get_nasdaq_data_def)

theorem empty_series_halts_witness:
  "weekday (now_day \<lparr> now_day = Wednesday, today = asc ''2024-01-03'', news_reply = Inl RequestException,
       hist = [], model_reply = Inr (asc ''Title: T''), post_reply = PostAccepted \<rparr>) \<notin> set [6, 0] \<and>
   main (\<lambda>x. []) \<lparr> WP_URL = Some (asc ''https://blog.example''), WP_USERNAME = Some (asc ''u''),
       WP_APP_PASSWORD = Some (asc ''p''), GEMINI_API_KEY = Some (asc ''k'') \<rparr>
     \<lparr> now_day = Wednesday, today = asc ''2024-01-03'', news_reply = Inl RequestException,
       hist = [], model_reply = Inr (asc ''Title: T''), post_reply = PostAccepted \<rparr>
   = \<lparr> mode = MARKET, topic = None, raised = None, effects = [FetchHistory] \<rparr>"
  using empty_series_halts [of "\<lparr> now_day = Wednesday, today = asc ''2024-01-03'', news_reply = Inl RequestException,
       hist = [], model_reply = Inr (asc ''Title: T''), post_reply = PostAccepted \<rparr>" "\<lambda>x. []"
       "\<lparr> WP_URL = Some (asc ''https://blog.example''), WP_USERNAME = Some (asc ''u''),
       WP_APP_PASSWORD = Some (asc ''p''), GEMINI_API_KEY = Some (asc ''k'') \<rparr>"]
  by simp

section \<open>Missing credentials\<close>

text \<open>
  C7. Whatever the title and the content, when the base URL, the user name or the
  application password is missing (unset or empty), \<open>post_to_wordpress\<close> returns
  \<open>False\<close> with no effect at all: no credentials are encoded and no request is sent.
\<close>

theorem missing_credentials_no_request:
  "WP_URL cfg \<in> {None, Some []} \<or> WP_USERNAME cfg \<in> {None, Some []} \<or>
   WP_APP_PASSWORD cfg \<in> {None, Some []} \<Longrightarrow>
   post_to_wordpress cfg outcome title content = (Inr False, [])"
  by (auto simp: post_to_wordpress_def truthy_def)

theorem missing_credentials_no_request_witness:
  "WP_APP_PASSWORD \<lparr> WP_URL = Some (asc ''https://blog.example''), WP_USERNAME = Some (asc ''u''),
       WP_APP_PASSWORD = None, GEMINI_API_KEY = Some (asc ''k'') \<rparr> \<in> {None, Some []} \<and>
   post_to_wordpress \<lparr> WP_URL = Some (asc ''https://blog.example''), WP_USERNAME = Some (asc ''u''),
       WP_APP_PASSWORD = None, GEMINI_API_KEY = Some (asc ''k'') \<rparr> PostAccepted (asc ''T'') (asc ''C'')
   = (Inr False, [])"
  using missing_credentials_no_request [of "\<lparr> WP_URL = Some (asc ''https://blog.example''), WP_USERNAME = Some (asc ''u''),
       WP_APP_PASSWORD = None, GEMINI_API_KEY = Some (asc ''k'') \<rparr>" PostAccepted "asc ''T''" "asc ''C''"]
  by simp

section \<open>Links\<close>

lemma collect_items_links:
  "collect_items acc (map (\<lambda>(t, l). \<lparr> title_el = Some t, link_el = Some (Some l) \<rparr>) tls) =
     Inr (acc @ map (\<lambda>(t, l). asc ''- '' @ t @ asc '' ('' @ normalize_link l @ asc '')'') tls)"
  by (induction tls arbitrary: acc) (auto simp: href_of_def)

lemma scraper_links:
  assumes "tls \<noteq> []"
  shows "fst (get_google_finance_news
            (Inr \<lparr> yY3Lee = map (\<lambda>(t, l). \<lparr> title_el = Some t, link_el = Some (Some l) \<rparr>) tls,
                   F2KAFc = other \<rparr>)) =
         join_nl (map (\<lambda>(t, l). asc ''- '' @ t @ asc '' ('' @ normalize_link l @ asc '')'') (take 5 tls))"
proof -
  have "take 5 tls \<noteq> []" using assms by (cases tls) simp_all
  then show ?thesis
    using assms
    by (simp add: get_google_finance_news_def Let_def take_map collect_items_links)
qed

text \<open>
  C9. A link that begins with \<open>./\<close> or with \<open>/\<close> is rewritten to an absolute URL
  under \<open>https://www.google.com/\<close>, and every other link is left as it is. The scraper
  does this to every link it extracts: the item the loop appends for a container with a
  headline and an \<open>href\<close> carries the rewritten link, and so does the digest that
  \<open>get_google_finance_news\<close> returns.
\<close>

theorem relative_links_made_absolute:
  "(startswith link (asc ''./'') \<longrightarrow>
      normalize_link link = asc ''https://www.google.com/finance'' @ drop 1 link \<and>
      startswith (normalize_link link) (asc ''https://www.google.com/'')) \<and>
   (\<not> startswith link (asc ''./'') \<and> startswith link (asc ''/'') \<longrightarrow>
      normalize_link link = asc ''https://www.google.com'' @ link \<and>
      startswith (normalize_link link) (asc ''https://www.google.com/'')) \<and>
   (\<not> startswith link (asc ''./'') \<and> \<not> startswith link (asc ''/'') \<longrightarrow>
      normalize_link link = link) \<and>
   collect_items acc (map (\<lambda>(t, l). \<lparr> title_el = Some t, link_el = Some (Some l) \<rparr>) tls) =
     Inr (acc @ map (\<lambda>(t, l). asc ''- '' @ t @ asc '' ('' @ normalize_link l @ asc '')'') tls) \<and>
   (tls \<noteq> [] \<longrightarrow>
      fst (get_google_finance_news
            (Inr \<lparr> yY3Lee = map (\<lambda>(t, l). \<lparr> title_el = Some t, link_el = Some (Some l) \<rparr>) tls,
                   F2KAFc = other \<rparr>)) =
        join_nl (map (\<lambda>(t, l). asc ''- '' @ t @ asc '' ('' @ normalize_link l @ asc '')'') (take 5 tls)))"
proof -
  have a: "asc ''https://www.google.com/finance'' @ drop 1 link =
      asc ''https://www.google.com/'' @ (asc ''finance'' @ drop 1 link)"
    by (simp add: asc_def)
  have b: "startswith link (asc ''/'') \<Longrightarrow>
      asc ''https://www.google.com'' @ link = asc ''https://www.google.com/'' @ drop 1 link"
    by (cases link) (auto simp: startswith_def asc_def)
  have 1: "startswith link (asc ''./'') \<Longrightarrow>
      normalize_link link = asc ''https://www.google.com/finance'' @ drop 1 link"
    by (simp add: normalize_link_def)
  have 2: "\<not> startswith link (asc ''./'') \<Longrightarrow> startswith link (asc ''/'') \<Longrightarrow>
      normalize_link link = asc ''https://www.google.com'' @ link"
    by (simp add: normalize_link_def)
  have 3: "\<not> startswith link (asc ''./'') \<Longrightarrow> \<not> startswith link (asc ''/'') \<Longrightarrow>
      normalize_link link = link"
    by (simp add: normalize_link_def)
  have 4: "startswith link (asc ''./'') \<Longrightarrow>
      startswith (normalize_link link) (asc ''https://www.google.com/'')"
    using 1 a startswith_append by metis
  have 5: "\<not> startswith link (asc ''./'') \<Longrightarrow> startswith link (asc ''/'') \<Longrightarrow>
      startswith (normalize_link link) (asc ''https://www.google.com/'')"
    using 2 b startswith_append by metis
  from 1 2 3 4 5 collect_items_links [of acc tls] scraper_links [of tls other]
  show ?thesis by blast
qed

theorem relative_links_made_absolute_witness:
  "startswith (asc ''./quote/AAPL'') (asc ''./'') \<and>
   normalize_link (asc ''./quote/AAPL'') = asc ''https://www.google.com/finance/quote/AAPL'' \<and>
   \<not> startswith (asc ''/finance/x'') (asc ''./'') \<and> startswith (asc ''/finance/x'') (asc ''/'') \<and>
   normalize_link (asc ''/finance/x'') = asc ''https://www.google.com/finance/x'' \<and>
   \<not> startswith (asc ''https://example.org/a'') (asc ''./'') \<and>
   \<not> startswith (asc ''https://example.org/a'') (asc ''/'') \<and>
   normalize_link (asc ''https://example.org/a'') = asc ''https://example.org/a'' \<and>
   [(asc ''T'', asc ''./quote/AAPL''), (asc ''U'', asc ''https://example.org/a'')] \<noteq> [] \<and>
   fst (get_google_finance_news
         (Inr \<lparr> yY3Lee = [\<lparr> title_el = Some (asc ''T''), link_el = Some (Some (asc ''./quote/AAPL'')) \<rparr>,
                          \<lparr> title_el = Some (asc ''U''), link_el = Some (Some (asc ''https://example.org/a'')) \<rparr>],
                F2KAFc = [] \<rparr>)) =
     asc ''- T (https://www.google.com/finance/quote/AAPL)\<newline>- U (https://example.org/a)''"
proof -
  note t1 = relative_links_made_absolute [of "asc ''./quote/AAPL''" "[]"
      "[(asc ''T'', asc ''./quote/AAPL''), (asc ''U'', asc ''https://example.org/a'')]" "[]"]
  note t2 = relative_links_made_absolute [of "asc ''/finance/x''" "[]" "[]" "[]"]
  note t3 = relative_links_made_absolute [of "asc ''https://example.org/a''" "[]" "[]" "[]"]
  have h1: "startswith (asc ''./quote/AAPL'') (asc ''./'')"
    by (simp add: startswith_def asc_def)
  have h2: "\<not> startswith (asc ''/finance/x'') (asc ''./'') \<and> startswith (asc ''/finance/x'') (asc ''/'')"
    by (simp add: startswith_def asc_def)
  have h3: "\<not> startswith (asc ''https://example.org/a'') (asc ''./'') \<and>
      \<not> startswith (asc ''https://example.org/a'') (asc ''/'')"
    by (simp add: startswith_def asc_def)
  have n1: "normalize_link (asc ''./quote/AAPL'') = asc ''https://www.google.com/finance'' @ drop 1 (asc ''./quote/AAPL'')"
    using t1 h1 by blast
  have n2: "normalize_link (asc ''/finance/x'') = asc ''https://www.google.com'' @ asc ''/finance/x''"
    using t2 h2 by blast
  have n3: "normalize_link (asc ''https://example.org/a'') = asc ''https://example.org/a''"
    using t3 h3 by blast
  have ne: "[(asc ''T'', asc ''./quote/AAPL''), (asc ''U'', asc ''https://example.org/a'')] \<noteq> []"
    by simp
  have g: "fst (get_google_finance_news
            (Inr \<lparr> yY3Lee = map (\<lambda>(t, l). \<lparr> title_el = Some t, link_el = Some (Some l) \<rparr>)
                      [(asc ''T'', asc ''./quote/AAPL''), (asc ''U'', asc ''https://example.org/a'')],
                   F2KAFc = [] \<rparr>)) =
        join_nl (map (\<lambda>(t, l). asc ''- '' @ t @ asc '' ('' @ normalize_link l @ asc '')'')
          (take 5 [(asc ''T'', asc ''./quote/AAPL''), (asc ''U'', asc ''https://example.org/a'')]))"
    using t1 ne by blast
  have g': "fst (get_google_finance_news
         (Inr \<lparr> yY3Lee = [\<lparr> title_el = Some (asc ''T''), link_el = Some (Some (asc ''./quote/AAPL'')) \<rparr>,
                          \<lparr> title_el = Some (asc ''U''), link_el = Some (Some (asc ''https://example.org/a'')) \<rparr>],
                F2KAFc = [] \<rparr>)) =
     asc ''- T (https://www.google.com/finance/quote/AAPL)\<newline>- U (https://example.org/a)''"
    using g by (simp add: n1 n3) (simp add: asc_def)
  have m1: "normalize_link (asc ''./quote/AAPL'') = asc ''https://www.google.com/finance/quote/AAPL''"
    unfolding n1 by (simp add: asc_def)
  have m2: "normalize_link (asc ''/finance/x'') = asc ''https://www.google.com/finance/x''"
    unfolding n2 by (simp add: asc_def)
  from h1 h2 h3 m1 m2 n3 ne g' show ?thesis by blast
qed

section \<open>A scrape without items\<close>










section \<open>The response parser\<close>

lemma set_strip: "set (strip s) \<subseteq> set s"
proof -
  have "set (strip s) \<subseteq> set (rev (dropWhile is_space s))"
    unfolding strip_def using set_dropWhileD by fastforce
  also have "\<dots> \<subseteq> set s" using set_dropWhileD by fastforce
  finally show ?thesis .
qed

lemma startswith_mem: "startswith s p \<Longrightarrow> c \<in> set p \<Longrightarrow> c \<in> set s"
  unfolding startswith_def by (metis in_set_takeD)

lemma title_has_colon: "is_title_line l \<Longrightarrow> 58 \<in> set l"
proof -
  assume "is_title_line l"
  then have "58 \<in> set (strip l)"
    unfolding is_title_line_def
    by (auto intro: startswith_mem simp: asc_def title_ko_def)
  then show ?thesis using set_strip by blast
qed

lemma after_colon_mem:
  "58 \<in> set l \<Longrightarrow> after_colon l = Inr (drop 1 (dropWhile (\<lambda>c. c \<noteq> 58) l))"
  unfolding after_colon_def
  by (induction l) (auto split: list.splits)

lemma title_not_content: "is_title_line l \<Longrightarrow> \<not> is_content_line l"
  unfolding is_title_line_def is_content_line_def startswith_def asc_def title_ko_def content_ko_def
  by (cases "strip l") auto

lemma no_markers:
  "\<forall>l\<in>set ls. \<not> is_title_line l \<and> \<not> is_content_line l \<Longrightarrow> parse_loop t c ls = Inr (t, c)"
  by (induction ls) auto

lemma scanned_title_Cons:
  "scanned_title t (l # pre) =
     (if is_title_line l then scanned_title (strip (drop 1 (dropWhile (\<lambda>c. c \<noteq> 58) l))) pre
      else scanned_title t pre)"
  unfolding scanned_title_def by (auto split: list.splits)

lemma parse_loop_stops:
  "\<forall>l\<in>set pre. \<not> is_content_line l \<Longrightarrow> is_content_line c \<Longrightarrow>
   parse_loop t b (pre @ c # post) = Inr (scanned_title t pre, join_nl post)"
proof (induction pre arbitrary: t)
  case Nil
  then show ?case using title_not_content by (auto simp: scanned_title_def)
next
  case (Cons l pre)
  then show ?case
    by (simp add: scanned_title_Cons after_colon_mem title_has_colon)
qed

lemmas parser_eval = parse_response_def asc_def is_title_line_def is_content_line_def
  startswith_def strip_def is_space_def after_colon_def title_ko_def content_ko_def

text \<open>
  C3. The response \<open>Title: Foo\<close>, \<open>Content: Bar\<close>, \<open>Baz\<close> (three lines) is parsed
  into the title \<open>Foo\<close> and the body \<open>Baz\<close>, not \<open>Bar\<close>, \<open>Baz\<close>: the body is
  \<open>lines[i+1:]\<close>, so the text after the colon on the Content line is dropped, although
  the prompt asks the model to put the content on that very line and the Title branch
  keeps the text after its colon.
\<close>

theorem content_line_text_dropped:
  "parse_response (asc ''Title: Foo\<newline>Content: Bar\<newline>Baz'') = Inr (asc ''Foo'', asc ''Baz'') \<and>
   fst (generate_blog_content full_config dstr
          (Inr (asc ''Title: Foo\<newline>Content: Bar\<newline>Baz'')) tp data) =
     (Some (asc ''Foo''), Some (asc ''Baz'')) \<and>
   asc ''Baz'' \<noteq> asc ''Bar\<newline>Baz''"
  by (simp add: parser_eval generate_blog_content_def truthy_def Let_def)

text \<open>
  C4. For a response none of whose lines, once trimmed, starts with a Title or Content
  marker in either language, parsing raises nothing and returns the placeholder title
  \<open>Market Update\<close> with the whole response as the body; with an API key set,
  \<open>generate_blog_content\<close> returns that pair.
\<close>

theorem no_markers_default:
  "\<forall>l\<in>set (split_nl text). \<not> is_title_line l \<and> \<not> is_content_line l \<Longrightarrow>
   parse_response text = Inr (asc ''Market Update'', text) \<and>
   (truthy (GEMINI_API_KEY cfg) \<longrightarrow>
      fst (generate_blog_content cfg dstr (Inr text) tp data) =
        (Some (asc ''Market Update''), Some text))"
  by (simp add: parse_response_def no_markers generate_blog_content_def Let_def)

theorem no_markers_default_witness:
  "split_nl (asc ''Stocks rose.\<newline>Subtitle: calm'') = [asc ''Stocks rose.'', asc ''Subtitle: calm''] \<and>
   \<not> is_title_line (asc ''Stocks rose.'') \<and> \<not> is_content_line (asc ''Stocks rose.'') \<and>
   \<not> is_title_line (asc ''Subtitle: calm'') \<and> \<not> is_content_line (asc ''Subtitle: calm'') \<and>
   truthy (GEMINI_API_KEY full_config) \<and>
   parse_response (asc ''Stocks rose.\<newline>Subtitle: calm'') =
     Inr (asc ''Market Update'', asc ''Stocks rose.\<newline>Subtitle: calm'') \<and>
   fst (generate_blog_content full_config [] (Inr (asc ''Stocks rose.\<newline>Subtitle: calm'')) [] []) =
     (Some (asc ''Market Update''), Some (asc ''Stocks rose.\<newline>Subtitle: calm''))"
proof -
  have s: "split_nl (asc ''Stocks rose.\<newline>Subtitle: calm'') = [asc ''Stocks rose.'', asc ''Subtitle: calm'']"
    by (simp add: asc_def)
  have l1: "\<not> is_title_line (asc ''Stocks rose.'') \<and> \<not> is_content_line (asc ''Stocks rose.'')"
    by (simp add: parser_eval)
  have l2: "\<not> is_title_line (asc ''Subtitle: calm'') \<and> \<not> is_content_line (asc ''Subtitle: calm'')"
    by (simp add: parser_eval)
  have h: "\<forall>l\<in>set (split_nl (asc ''Stocks rose.\<newline>Subtitle: calm'')).
      \<not> is_title_line l \<and> \<not> is_content_line l"
    unfolding s using l1 l2 by simp
  have k: "truthy (GEMINI_API_KEY full_config)" by (simp add: truthy_def asc_def)
  show ?thesis
    using s l1 l2 k no_markers_default [OF h, of full_config "[]" "[]" "[]"] by blast
qed

text \<open>
  C10. The scan stops at the first line that starts with a Content marker. The title is
  the one set by the last Title-marked line before it (the placeholder when there is
  none), and the body is the join of the lines after it, taken as they are: a Title or
  Content marker among them is not interpreted. With an API key set,
  \<open>generate_blog_content\<close> returns that pair.
\<close>

theorem scan_stops_at_content:
  "split_nl text = pre @ c # post \<Longrightarrow> \<forall>l\<in>set pre. \<not> is_content_line l \<Longrightarrow>
   is_content_line c \<Longrightarrow>
   parse_response text = Inr (scanned_title (asc ''Market Update'') pre, join_nl post) \<and>
   (truthy (GEMINI_API_KEY cfg) \<longrightarrow>
      fst (generate_blog_content cfg dstr (Inr text) tp data) =
        (Some (scanned_title (asc ''Market Update'') pre), Some (join_nl post)))"
  by (simp add: parse_response_def parse_loop_stops generate_blog_content_def Let_def)

theorem scan_stops_at_content_witness:
  "split_nl (asc ''Title: A\<newline>Title: B\<newline>Content: x\<newline>Title: C\<newline>Content: y\<newline>z'') =
     [asc ''Title: A'', asc ''Title: B''] @ asc ''Content: x'' # [asc ''Title: C'', asc ''Content: y'', asc ''z''] \<and>
   \<not> is_content_line (asc ''Title: A'') \<and> \<not> is_content_line (asc ''Title: B'') \<and>
   is_content_line (asc ''Content: x'') \<and>
   truthy (GEMINI_API_KEY full_config) \<and>
   parse_response (asc ''Title: A\<newline>Title: B\<newline>Content: x\<newline>Title: C\<newline>Content: y\<newline>z'') =
     Inr (asc ''B'', asc ''Title: C\<newline>Content: y\<newline>z'') \<and>
   fst (generate_blog_content full_config []
          (Inr (asc ''Title: A\<newline>Title: B\<newline>Content: x\<newline>Title: C\<newline>Content: y\<newline>z'')) [] []) =
     (Some (asc ''B''), Some (asc ''Title: C\<newline>Content: y\<newline>z''))"
proof -
  have k: "truthy (GEMINI_API_KEY full_config)" by (simp add: truthy_def asc_def)
  have s: "split_nl (asc ''Title: A\<newline>Title: B\<newline>Content: x\<newline>Title: C\<newline>Content: y\<newline>z'') =
     [asc ''Title: A'', asc ''Title: B''] @ asc ''Content: x'' # [asc ''Title: C'', asc ''Content: y'', asc ''z'']"
    by (simp add: asc_def)
  have p1: "\<not> is_content_line (asc ''Title: A'')" by (simp add: parser_eval)
  have p2: "\<not> is_content_line (asc ''Title: B'')" by (simp add: parser_eval)
  have p: "\<forall>l\<in>set [asc ''Title: A'', asc ''Title: B'']. \<not> is_content_line l"
    using p1 p2 by simp
  have c: "is_content_line (asc ''Content: x'')"
    by (simp add: parser_eval)
  have t: "scanned_title (asc ''Market Update'') [asc ''Title: A'', asc ''Title: B''] = asc ''B''"
    by (simp add: scanned_title_def parser_eval)
  have j: "join_nl [asc ''Title: C'', asc ''Content: y'', asc ''z''] = asc ''Title: C\<newline>Content: y\<newline>z''"
    by (simp add: asc_def)
  show ?thesis
    using s p1 p2 c k scan_stops_at_content [OF s p c, of full_config "[]" "[]" "[]"] t j
    by simp
qed

section \<open>A missing model key\<close>

text \<open>
  When the model call raises, the pair is \<open>(None, None)\<close> and the run ends after the
  call without posting.
\<close>

lemma generation_exception_not_published:
  "truthy (GEMINI_API_KEY cfg) \<Longrightarrow> model_reply w = Inl e \<Longrightarrow> data \<noteq> [] \<Longrightarrow>
   main_generate cfg w m tp data ev =
     \<lparr> mode = m, topic = Some tp, raised = None,
       effects = ev @ [ModelCall (build_prompt (today w) tp data)] \<rparr>"
  by (simp add: main_generate_def generate_blog_content_def truthy_def Let_def)

text \<open>
  C8. A failure of content generation should end the run without a publish request. With
  no API key, \<open>generate_blog_content\<close> returns the pair of error strings
  \<open>Error: Gemini API Key not found.\<close> and \<open>Error\<close>; both are non-empty, so
  \<open>main\<close> takes them for generated content and, with the three publishing settings
  present, posts them: on a Monday the run below ends with an \<open>HttpPost\<close> whose title
  is the error message.
\<close>

theorem missing_key_error_is_published:
  "main (\<lambda>x. [])
     \<lparr> WP_URL = Some (asc ''https://blog.example''), WP_USERNAME = Some (asc ''u''),
       WP_APP_PASSWORD = Some (asc ''p''), GEMINI_API_KEY = None \<rparr>
     (a_world Monday [] (Inl ModelError)) =
   \<lparr> mode = NEWS, topic = Some (asc ''Global Financial Market News & Updates''), raised = None,
     effects =
       [HttpGet finance_url, B64Encode (asc ''u:p''),
        HttpPost (asc ''https://blog.example/wp-json/wp/v2/posts'') (asc ''u:p'')
          (asc ''Error: Gemini API Key not found.'') (asc ''Error'')] \<rparr>"
  by (simp add: main_def main_generate_def get_google_finance_news_def generate_blog_content_def
      post_to_wordpress_def truthy_def str_of_def asc_def encodable_def Let_def)

section \<open>The snapshot\<close>

lemma signed_zero_is_zero: "is_zero (signed_zero s)"
  by (simp add: signed_zero_def)

lemma pack_zero: "pack s 0 = signed_zero s"
  by (simp add: pack_def rnd_mag_def)

lemma fsub_self: "fsub (Fin c) (Fin c) = Fin 0"
  by (simp add: fsub_def signed_zero_def)

lemma round2_signed_zero: "round2 (signed_zero s) = signed_zero s"
  by (cases s) (simp_all add: round2_def fmul_def fdiv_def frint_def mag_def pack_zero
      signed_zero_def rint_def)

lemma zero_percent: "c \<noteq> 0 \<Longrightarrow> fmul (fdiv (Fin 0) (Fin c)) (Fin 100) = signed_zero (c < 0)"
  by (cases "c < 0") (simp_all add: fmul_def fdiv_def mag_def pack_zero signed_zero_def)

text \<open>Powers of two and the binary logarithm.\<close>

lemma pow2_power_int: "pow2 e = power_int 2 e"
  by (simp add: pow2_def power_int_def power_one_over inverse_eq_divide)

lemma pow2_pos: "0 < pow2 e"
  by (simp add: pow2_power_int)

lemma pow2_mono: "i \<le> j \<Longrightarrow> pow2 i \<le> pow2 j"
  by (simp add: pow2_power_int power_int_increasing)

lemma pow2_add: "pow2 (i + j) = pow2 i * pow2 j"
  by (simp add: pow2_power_int power_int_add)

lemma pow2_of_nat: "0 \<le> e \<Longrightarrow> pow2 e = of_int (2 ^ nat e)"
  by (simp add: pow2_def)

lemma floor_log2_bounds:
  assumes "0 < a"
  shows "pow2 (floor_log2 a) \<le> a \<and> a < pow2 (floor_log2 a + 1)"
proof -
  obtain n d where q: "quotient_of a = (n, d)" by (cases "quotient_of a")
  have d: "0 < d" using quotient_of_denom_pos [OF q] .
  have a: "a = of_int n / of_int d" using quotient_of_div [OF q] .
  have n: "0 < n" using assms d unfolding a by (simp add: zero_less_divide_iff)
  define bn where "bn = bitlen n"
  define bd where "bd = bitlen d"
  have bn: "2 ^ nat (bn - 1) \<le> n" "n < 2 ^ nat bn" using bitlen_bounds [OF n] by (simp_all add: bn_def)
  have bd: "2 ^ nat (bd - 1) \<le> d" "d < 2 ^ nat bd" using bitlen_bounds [OF d] by (simp_all add: bd_def)
  have bn1: "1 \<le> bn" using bn(2) n by (cases "bn \<le> 0") auto
  have bd1: "1 \<le> bd" using bd(2) d by (cases "bd \<le> 0") auto
  have rn1: "pow2 (bn - 1) \<le> of_int n"
    using bn(1) bn1 by (simp add: pow2_of_nat del: of_int_power)
  have rn2: "(of_int n :: rat) < pow2 bn"
    using bn(2) bn1 by (simp add: pow2_of_nat del: of_int_power)
  have rd1: "pow2 (bd - 1) \<le> of_int d"
    using bd(1) bd1 by (simp add: pow2_of_nat del: of_int_power)
  have rd2: "(of_int d :: rat) < pow2 bd"
    using bd(2) bd1 by (simp add: pow2_of_nat del: of_int_power)
  have dpos: "(0::rat) < of_int d" using d by simp
  have up: "a < pow2 (bn - bd + 1)"
  proof -
    have "pow2 bn = pow2 (bn - bd + 1) * pow2 (bd - 1)"
      using pow2_add [of "bn - bd + 1" "bd - 1"] by simp
    also have "\<dots> \<le> pow2 (bn - bd + 1) * of_int d"
      using rd1 pow2_pos [of "bn - bd + 1"] by (simp add: mult_left_mono)
    finally have "of_int n < pow2 (bn - bd + 1) * of_int d" using rn2 by simp
    then show ?thesis unfolding a using dpos by (simp add: pos_divide_less_eq)
  qed
  have lo: "pow2 (bn - bd - 1) \<le> a"
  proof -
    have "pow2 (bn - bd - 1) * of_int d \<le> pow2 (bn - bd - 1) * pow2 bd"
      using rd2 pow2_pos [of "bn - bd - 1"] by (simp add: mult_left_mono)
    also have "\<dots> = pow2 (bn - 1)"
      using pow2_add [of "bn - bd - 1" bd] by simp
    finally have "pow2 (bn - bd - 1) * of_int d \<le> of_int n" using rn1 by simp
    then show ?thesis unfolding a using dpos by (simp add: pos_le_divide_eq)
  qed
  have fl: "floor_log2 a = (if pow2 (bn - bd) \<le> a then bn - bd else bn - bd - 1)"
    by (simp add: floor_log2_def q bn_def bd_def)
  show ?thesis
    using up lo by (auto simp: fl)
qed

lemma floor_log2_unique:
  assumes "0 < a" "pow2 k \<le> a" "a < pow2 (k + 1)"
  shows "floor_log2 a = k"
proof (rule ccontr)
  assume ne: "floor_log2 a \<noteq> k"
  note b = floor_log2_bounds [OF assms(1)]
  show False
  proof (cases "floor_log2 a < k")
    case True
    then have "pow2 (floor_log2 a + 1) \<le> pow2 k" by (intro pow2_mono) simp
    with b assms(2) show False by simp
  next
    case False
    with ne have "pow2 (k + 1) \<le> pow2 (floor_log2 a)" by (intro pow2_mono) simp
    with b assms(3) show False by simp
  qed
qed

text \<open>Evaluating the rounding: to an integer, and to the binary64 grid.\<close>

lemma rnd_mag_eval:
  assumes "0 < a" "pow2 k \<le> a" "a < pow2 (k + 1)"
  shows "rnd_mag a = of_int (rint (a / pow2 (max (k - 52) (- 1074)))) * pow2 (max (k - 52) (- 1074))"
  using assms by (simp add: rnd_mag_def floor_log2_unique [OF assms] Let_def)

lemma rint_near:
  assumes "\<bar>q - of_int n\<bar> < 1 / 2"
  shows "rint q = n"
proof (cases "of_int n \<le> q")
  case True
  with assms have f: "\<lfloor>q\<rfloor> = n" by (intro floor_unique) auto
  show ?thesis using assms True by (simp add: rint_def f Let_def)
next
  case False
  with assms have f: "\<lfloor>q\<rfloor> = n - 1" by (intro floor_unique) auto
  show ?thesis using assms False by (simp add: rint_def f Let_def)
qed

lemma rint_tie:
  assumes "q = of_int n + 1 / 2"
  shows "rint q = (if even n then n else n + 1)"
proof -
  have f: "\<lfloor>q\<rfloor> = n" unfolding assms by (intro floor_unique) auto
  show ?thesis by (simp add: rint_def f Let_def) (simp add: assms)
qed

lemma rnd_mag_267_5: "rnd_mag (301178225080401900 / 1125899906842624) = 535 / 2"
proof -
  have "rint (301178225080401900 / 1125899906842624 / pow2 (max (8 - 52) (- 1074))) = 4705909766881280"
    by (rule rint_near) (simp add: pow2_def)
  then show ?thesis
    by (subst rnd_mag_eval [where k = 8]) (simp_all add: pow2_def)
qed

lemma rnd_mag_2_68: "rnd_mag (268 / 100) = 6034823500676465 / 2251799813685248"
proof -
  have "rint (268 / 100 / pow2 (max (1 - 52) (- 1074))) = 6034823500676465"
    by (rule rint_near) (simp add: pow2_def)
  then show ?thesis
    by (subst rnd_mag_eval [where k = 1]) (simp_all add: pow2_def)
qed

lemma round2_2675:
  "round2 (Fin (3011782250804019 / 1125899906842624)) = Fin (6034823500676465 / 2251799813685248)"
proof -
  have m: "fmul (Fin (3011782250804019 / 1125899906842624)) (Fin 100) = Fin (535 / 2)"
    using rnd_mag_267_5 by (simp add: fmul_def mag_def pack_def Let_def)
  have "rint (535 / 2) = (if even (267::int) then 267 else 267 + 1)"
    by (rule rint_tie) simp
  then have f: "frint (Fin (535 / 2)) = Fin 268"
    by (simp add: frint_def Let_def)
  have d: "fdiv (Fin 268) (Fin 100) = Fin (6034823500676465 / 2251799813685248)"
    using rnd_mag_2_68 by (simp add: fdiv_def mag_def pack_def Let_def)
  show ?thesis by (simp only: round2_def m f d)
qed

text \<open>A value of the grid rounds to itself.\<close>

lemma pow2_less_cancel: "pow2 i < pow2 j \<Longrightarrow> i < j"
  using pow2_mono [of j i] by (cases "i < j") auto

lemma rint_of_int: "rint (of_int j) = j"
  by (rule rint_near) simp

lemma rnd_mag_exact:
  assumes m: "0 < m" "m < 2 ^ 53" and e: "- 1074 \<le> e"
  shows "rnd_mag (of_int m * pow2 e) = of_int m * pow2 e"
proof -
  let ?a = "of_int m * pow2 e :: rat"
  have pos: "0 < ?a" using m(1) pow2_pos [of e] by simp
  define k where "k = floor_log2 ?a"
  define e' where "e' = max (k - 52) (- 1074)"
  have "(of_int m :: rat) < of_int (2 ^ 53)" using m(2) by (simp only: of_int_less_iff)
  then have "(of_int m :: rat) < pow2 53" by (simp add: pow2_def)
  then have "?a < pow2 53 * pow2 e" using pow2_pos [of e] by simp
  then have "?a < pow2 (53 + e)" by (simp add: pow2_add)
  moreover have "pow2 k \<le> ?a" using floor_log2_bounds [OF pos] by (simp add: k_def)
  ultimately have "pow2 k < pow2 (53 + e)" by simp
  then have "k < 53 + e" by (rule pow2_less_cancel)
  with e have le: "e' \<le> e" by (simp add: e'_def)
  have "pow2 e = pow2 (e - e') * pow2 e'" using pow2_add [of "e - e'" e'] by simp
  then have q: "?a / pow2 e' = of_int m * pow2 (e - e')"
    using pow2_pos [of e'] by simp
  have "pow2 (e - e') = of_int (2 ^ nat (e - e'))" using le by (simp add: pow2_def)
  then have "?a / pow2 e' = of_int (m * 2 ^ nat (e - e'))" unfolding q by simp
  then have "rint (?a / pow2 e') = m * 2 ^ nat (e - e')" by (simp only: rint_of_int)
  then have "of_int (rint (?a / pow2 e')) * pow2 e' = of_int m * (pow2 (e - e') * pow2 e')"
    using le by (simp add: pow2_def)
  also have "\<dots> = ?a" using pow2_add [of "e - e'" e'] by simp
  finally show ?thesis
    using pos by (simp add: rnd_mag_def Let_def k_def [symmetric] e'_def [symmetric])
qed

lemma rnd_mag_int: "0 < m \<Longrightarrow> m < 2 ^ 53 \<Longrightarrow> rnd_mag (of_int m) = of_int m"
  using rnd_mag_exact [of m 0] by (simp add: pow2_def)

lemma pack_int: "0 < m \<Longrightarrow> m < 2 ^ 53 \<Longrightarrow> pack s (of_int m) = Fin (if s then - of_int m else of_int m)"
  by (simp add: pack_def rnd_mag_int Let_def del: of_int_power)

lemma round2_small_int:
  assumes "0 < m" "m < 2 ^ 40"
  shows "round2 (Fin (of_int m)) = Fin (of_int m)"
proof -
  have m53: "m < 2 ^ 53" using assms(2) by simp
  have h: "0 < m * 100" "m * 100 < 2 ^ 53" using assms by simp_all
  have 1: "fmul (Fin (of_int m)) (Fin 100) = Fin (of_int (m * 100))"
    using pack_int [OF h, of False] assms(1) by (simp add: fmul_def mag_def)
  have 2: "frint (Fin (of_int (m * 100))) = Fin (of_int (m * 100))"
    using assms(1) by (simp add: frint_def rint_of_int Let_def del: of_int_mult)
  have 3: "fdiv (Fin (of_int (m * 100))) (Fin 100) = Fin (of_int m)"
    using pack_int [OF assms(1) m53, of False] assms(1) by (simp add: fdiv_def mag_def)
  show ?thesis by (simp only: round2_def 1 2 3)
qed

lemma example_sub: "fsub (Fin 3) (Fin 2) = Fin 1"
  using pack_int [of 1 False] by (simp add: fsub_def)

lemma example_div: "fdiv (Fin 1) (Fin 2) = Fin (1 / 2)"
  using rnd_mag_exact [of 1 "- 1"] by (simp add: fdiv_def mag_def pack_def pow2_def)

lemma example_mul: "fmul (Fin (1 / 2)) (Fin 100) = Fin 50"
  using pack_int [of 50 False] by (simp add: fmul_def mag_def)

lemma example_round: "round2 (Fin 1) = Fin 1" "round2 (Fin 3) = Fin 3" "round2 (Fin 50) = Fin 50"
  using round2_small_int [of 1] round2_small_int [of 3] round2_small_int [of 50] by simp_all

text \<open>The snapshot of a series, by the number of its rows.\<close>

lemma nasdaq_two:
  "fst (get_nasdaq_data (xs @ [p, l])) =
     Some \<lparr> d_date = bar_date l, d_close = round2 (Close l), d_open = round2 (Open l),
            d_high = round2 (High l), d_low = round2 (Low l), d_volume = Volume l,
            d_change = round2 (fsub (Close l) (Close p)),
            d_change_percent = round2 (fmul (fdiv (fsub (Close l) (Close p)) (Close p)) (Fin 100)) \<rparr>"
  by (simp add: get_nasdaq_data_def Let_def nth_append)

lemma nasdaq_one:
  "fst (get_nasdaq_data [l]) =
     Some \<lparr> d_date = bar_date l, d_close = round2 (Close l), d_open = round2 (Open l),
            d_high = round2 (High l), d_low = round2 (Low l), d_volume = Volume l,
            d_change = round2 (fsub (Close l) (Close l)),
            d_change_percent = round2 (fmul (fdiv (fsub (Close l) (Close l)) (Close l)) (Fin 100)) \<rparr>"
  by (simp add: get_nasdaq_data_def Let_def)

text \<open>
  C2, as the code has it. For a series of at least two rows the snapshot holds the
  close, open, high and low of the last row, each rounded to two places, the rounded
  difference of the last two closes as \<open>change\<close>, and that difference divided by the
  earlier close, times 100, rounded, as \<open>change_percent\<close>. For a single row the row is
  compared with itself; when its close is finite and not zero, \<open>change\<close> is the
  positive zero and \<open>change_percent\<close> is a zero (with the sign of the close). The
  instance after the theorem has the closes 2 and 3, with change 1 and 50 percent, and a
  close of 2.675 (the nearest float), which is rounded to 2.68.
\<close>

theorem snapshot_change:
  "fst (get_nasdaq_data (xs @ [p, l])) =
     Some \<lparr> d_date = bar_date l, d_close = round2 (Close l), d_open = round2 (Open l),
            d_high = round2 (High l), d_low = round2 (Low l), d_volume = Volume l,
            d_change = round2 (fsub (Close l) (Close p)),
            d_change_percent = round2 (fmul (fdiv (fsub (Close l) (Close p)) (Close p)) (Fin 100)) \<rparr> \<and>
   fst (get_nasdaq_data [l]) =
     Some \<lparr> d_date = bar_date l, d_close = round2 (Close l), d_open = round2 (Open l),
            d_high = round2 (High l), d_low = round2 (Low l), d_volume = Volume l,
            d_change = round2 (fsub (Close l) (Close l)),
            d_change_percent = round2 (fmul (fdiv (fsub (Close l) (Close l)) (Close l)) (Fin 100)) \<rparr> \<and>
   (Close l = Fin c \<and> c \<noteq> 0 \<longrightarrow>
      map_option d_change (fst (get_nasdaq_data [l])) = Some (Fin 0) \<and>
      map_option d_change_percent (fst (get_nasdaq_data [l])) = Some (signed_zero (c < 0)) \<and>
      is_zero (signed_zero (c < 0)))"
proof -
  have z: "round2 (Fin 0) = Fin 0" using round2_signed_zero [of False] by (simp add: signed_zero_def)
  have "Close l = Fin c \<and> c \<noteq> 0 \<longrightarrow>
      map_option d_change (fst (get_nasdaq_data [l])) = Some (Fin 0) \<and>
      map_option d_change_percent (fst (get_nasdaq_data [l])) = Some (signed_zero (c < 0))"
    by (simp add: nasdaq_one fsub_self z zero_percent round2_signed_zero)
  then show ?thesis
    using nasdaq_two [of xs p l] nasdaq_one [of l] signed_zero_is_zero by blast
qed

theorem snapshot_change_witness:
  "Close (a_bar (Fin 3)) = Fin 3 \<and> (3::rat) \<noteq> 0 \<and>
   fst (get_nasdaq_data [a_bar (Fin 2), a_bar (Fin 3)]) =
     Some \<lparr> d_date = asc ''2024-01-01'', d_close = Fin 3, d_open = Fin 3, d_high = Fin 3,
            d_low = Fin 3, d_volume = Fin 9, d_change = Fin 1, d_change_percent = Fin 50 \<rparr> \<and>
   fst (get_nasdaq_data [a_bar (Fin 3)]) =
     Some \<lparr> d_date = asc ''2024-01-01'', d_close = Fin 3, d_open = Fin 3, d_high = Fin 3,
            d_low = Fin 3, d_volume = Fin 9, d_change = Fin 0, d_change_percent = Fin 0 \<rparr> \<and>
   map_option d_change (fst (get_nasdaq_data [a_bar (Fin 3)])) = Some (Fin 0) \<and>
   map_option d_change_percent (fst (get_nasdaq_data [a_bar (Fin 3)])) = Some (Fin 0) \<and>
   map_option d_close
     (fst (get_nasdaq_data [a_bar (Fin (3011782250804019 / 1125899906842624))])) =
     Some (Fin (6034823500676465 / 2251799813685248))"
proof -
  note t = snapshot_change [of "[]" "a_bar (Fin 2)" "a_bar (Fin 3)" 3]
  note u = snapshot_change [of "[]" "a_bar (Fin 2)"
      "a_bar (Fin (3011782250804019 / 1125899906842624))" 3]
  have h: "Close (a_bar (Fin 3)) = Fin 3 \<and> (3::rat) \<noteq> 0" by simp
  have two: "fst (get_nasdaq_data ([] @ [a_bar (Fin 2), a_bar (Fin 3)])) =
     Some \<lparr> d_date = bar_date (a_bar (Fin 3)), d_close = round2 (Close (a_bar (Fin 3))),
            d_open = round2 (Open (a_bar (Fin 3))), d_high = round2 (High (a_bar (Fin 3))),
            d_low = round2 (Low (a_bar (Fin 3))), d_volume = Volume (a_bar (Fin 3)),
            d_change = round2 (fsub (Close (a_bar (Fin 3))) (Close (a_bar (Fin 2)))),
            d_change_percent = round2 (fmul (fdiv (fsub (Close (a_bar (Fin 3))) (Close (a_bar (Fin 2))))
              (Close (a_bar (Fin 2)))) (Fin 100)) \<rparr>"
    using t by blast
  have one: "fst (get_nasdaq_data [a_bar (Fin 3)]) =
     Some \<lparr> d_date = bar_date (a_bar (Fin 3)), d_close = round2 (Close (a_bar (Fin 3))),
            d_open = round2 (Open (a_bar (Fin 3))), d_high = round2 (High (a_bar (Fin 3))),
            d_low = round2 (Low (a_bar (Fin 3))), d_volume = Volume (a_bar (Fin 3)),
            d_change = round2 (fsub (Close (a_bar (Fin 3))) (Close (a_bar (Fin 3)))),
            d_change_percent = round2 (fmul (fdiv (fsub (Close (a_bar (Fin 3))) (Close (a_bar (Fin 3))))
              (Close (a_bar (Fin 3)))) (Fin 100)) \<rparr>"
    using t by blast
  have z: "round2 (Fin 0) = Fin 0" using round2_signed_zero [of False] by (simp add: signed_zero_def)
  have p: "fmul (fdiv (Fin 0) (Fin 3)) (Fin 100) = Fin 0"
    using zero_percent [of 3] by (simp add: signed_zero_def)
  have 1: "fst (get_nasdaq_data [a_bar (Fin 2), a_bar (Fin 3)]) =
     Some \<lparr> d_date = asc ''2024-01-01'', d_close = Fin 3, d_open = Fin 3, d_high = Fin 3,
            d_low = Fin 3, d_volume = Fin 9, d_change = Fin 1, d_change_percent = Fin 50 \<rparr>"
    using two by (simp add: example_sub example_div example_mul example_round)
  have 2: "fst (get_nasdaq_data [a_bar (Fin 3)]) =
     Some \<lparr> d_date = asc ''2024-01-01'', d_close = Fin 3, d_open = Fin 3, d_high = Fin 3,
            d_low = Fin 3, d_volume = Fin 9, d_change = Fin 0, d_change_percent = Fin 0 \<rparr>"
    using one by (simp add: fsub_self z p example_round)
  have "map_option d_close
     (fst (get_nasdaq_data [a_bar (Fin (3011782250804019 / 1125899906842624))])) =
     Some (round2 (Close (a_bar (Fin (3011782250804019 / 1125899906842624)))))"
    using u by simp
  then have 3: "map_option d_close
     (fst (get_nasdaq_data [a_bar (Fin (3011782250804019 / 1125899906842624))])) =
     Some (Fin (6034823500676465 / 2251799813685248))"
    by (simp add: round2_2675)
  have 4: "map_option d_change (fst (get_nasdaq_data [a_bar (Fin 3)])) = Some (Fin 0)"
    using t h by blast
  have "map_option d_change_percent (fst (get_nasdaq_data [a_bar (Fin 3)])) =
      Some (signed_zero ((3::rat) < 0))"
    using t h by blast
  then have 5: "map_option d_change_percent (fst (get_nasdaq_data [a_bar (Fin 3)])) = Some (Fin 0)"
    by (simp add: signed_zero_def)
  from h 1 2 3 4 5 show ?thesis by blast
qed

text \<open>
  C2 as stated fails for a single row whose close is zero: \<open>0.0 / 0.0\<close> is \<open>nan\<close>,
  so \<open>change_percent\<close> is \<open>nan\<close>, not zero.
\<close>

theorem one_bar_zero_close_counterexample:
  "map_option d_change_percent (fst (get_nasdaq_data [a_bar (Fin 0)])) = Some NaN \<and>
   \<not> is_zero NaN"
  by (simp add: nasdaq_one fsub_self fdiv_def fmul_def round2_def frint_def)

end
